theory Spec2Isabelle
  imports Main "HOL-Library.Word"
begin

unbundle bit_operations_syntax

section \<open>The volume image and the read cursor\<close>

text \<open>
  \<^verbatim>\<open>fat32.c\<close> keeps one descriptor \<^verbatim>\<open>fd\<close> on the image, opened with
  \<^verbatim>\<open>O_RDONLY\<close>, and touches it only through \<^verbatim>\<open>lseek\<close>, \<^verbatim>\<open>read\<close> and \<^verbatim>\<open>close\<close>.
  The descriptor is modelled by the bytes of the file and the cursor. The source never
  looks at the value \<^verbatim>\<open>read\<close> returns, so a read that comes up short would leave stale
  bytes in its buffer; the model describes the runs in which the image reaches past every
  offset that is read, and takes the byte at every offset as given.
\<close>

type_synonym byte = "8 word"
type_synonym u16 = "16 word"
type_synonym u32 = "32 word"

record fd_state =
  file_bytes :: "nat \<Rightarrow> byte"
  file_pos :: nat

definition lseek :: "nat \<Rightarrow> fd_state \<Rightarrow> fd_state" where
  "lseek off s = s\<lparr>file_pos := off\<rparr>"

definition bytes_at :: "(nat \<Rightarrow> byte) \<Rightarrow> nat \<Rightarrow> nat \<Rightarrow> byte list" where
  \<comment> \<open>the \<open>n\<close> bytes of the image from offset \<open>off\<close> on\<close>
  "bytes_at img off n = map img [off ..< off + n]"

definition read_fd :: "nat \<Rightarrow> fd_state \<Rightarrow> byte list \<times> fd_state" where
  "read_fd n s = (bytes_at (file_bytes s) (file_pos s) n, s\<lparr>file_pos := file_pos s + n\<rparr>)"

text \<open>Multi-byte fields are read on a little-endian host, as the structs are filled by
  \<^verbatim>\<open>read\<close> straight from the image.\<close>

definition le16 :: "byte list \<Rightarrow> nat \<Rightarrow> u16" where
  "le16 bs k = ucast (bs ! k) OR push_bit 8 (ucast (bs ! (k + 1)))"

definition le32 :: "byte list \<Rightarrow> nat \<Rightarrow> u32" where
  "le32 bs k = ucast (bs ! k) OR push_bit 8 (ucast (bs ! (k + 1)))
     OR push_bit 16 (ucast (bs ! (k + 2))) OR push_bit 24 (ucast (bs ! (k + 3)))"

section \<open>Constants\<close>

definition SIZE_OF_FAT_ENTRY :: nat where "SIZE_OF_FAT_ENTRY = 32"
definition BITS_PER_BYTE :: nat where "BITS_PER_BYTE = 8"
definition BYTES_PER_KB :: nat where "BYTES_PER_KB = 1024"
definition END_OF_CLUSTER_CHAIN :: u32 where "END_OF_CLUSTER_CHAIN = 0x0ffffff8"
definition MASK_FIRST_HEX :: u32 where "MASK_FIRST_HEX = 0x0fffffff"

section \<open>The short-name checksum\<close>

text \<open>
  \<^verbatim>\<open>ChkSum\<close> walks the 11 bytes at \<^verbatim>\<open>pFcbName\<close>. The right-hand side of its assignment is
  computed in \<^verbatim>\<open>int\<close> and stored into an \<^verbatim>\<open>unsigned char\<close>, that is modulo 256, which is
  the arithmetic of \<^typ>\<open>byte\<close>.
\<close>

definition chk_step :: "byte \<Rightarrow> byte \<Rightarrow> byte" where
  "chk_step b Sm = (if Sm AND 1 \<noteq> 0 then 0x80 else 0) + drop_bit 1 Sm + b"

fun ChkSum_loop :: "nat \<Rightarrow> byte list \<Rightarrow> byte \<Rightarrow> byte" where
  "ChkSum_loop 0 pFcbName Sm = Sm"
| "ChkSum_loop (Suc FcbNameLen) [] Sm = Sm"
| "ChkSum_loop (Suc FcbNameLen) (b # pFcbName) Sm =
     ChkSum_loop FcbNameLen pFcbName (chk_step b Sm)"

definition ChkSum :: "byte list \<Rightarrow> byte" where
  "ChkSum pFcbName = ChkSum_loop 11 pFcbName 0"

text \<open>The reference definition, in the words of the specification: the sum is rotated
  right by one bit and the next name byte is added, for each of the 11 bytes, from 0.\<close>

definition rotate_right_sum :: "byte list \<Rightarrow> byte" where
  "rotate_right_sum name = fold (\<lambda>b Sm. word_rotr 1 Sm + b) (take 11 name) 0"

text \<open>The same recurrence on numbers below 256, as the specification writes it:
  \<^verbatim>\<open>sum = ((sum&1)?0x80:0) + (sum>>1) + byte\<close>, kept to one byte.\<close>

definition rotate_right_sum_nat :: "nat list \<Rightarrow> nat" where
  "rotate_right_sum_nat name =
     fold (\<lambda>b Sm. ((if Sm mod 2 = 1 then 128 else 0) + Sm div 2 + b) mod 256) (take 11 name) 0"

section \<open>The declarations of the header\<close>

text \<open>
  Modelled from the spec: \<^verbatim>\<open>fat32.h\<close>, which declares the structs and the attribute macros,
  is not under \<^verbatim>\<open>src/\<close>. The specification fixes the input as a FAT32 image with the boot
  sector, the FS-info sector and the 32-byte directory and long-name slots at the offsets of
  the FAT32 on-disk format, names the attribute flags, and gives the long-name test as
  "attribute byte masked by 0x3F equals 0x0F". The values and offsets below are those of
  that format; only the fields \<^verbatim>\<open>fat32.c\<close> reads are kept. The sentinel \<^verbatim>\<open>EOC\<close> of
  \<^verbatim>\<open>copyFile\<close> is a macro of the header too: it is left open, as a parameter \<open>EOC\<close> of
  every function that reaches \<^verbatim>\<open>copyFile\<close>.
\<close>

definition ATTR_READ_ONLY :: byte where "ATTR_READ_ONLY = 0x01"
definition ATTR_HIDDEN :: byte where "ATTR_HIDDEN = 0x02"
definition ATTR_SYSTEM :: byte where "ATTR_SYSTEM = 0x04"
definition ATTR_VOLUME_ID :: byte where "ATTR_VOLUME_ID = 0x08"
definition ATTR_DIRECTORY :: byte where "ATTR_DIRECTORY = 0x10"
definition ATTR_ARCHIVE :: byte where "ATTR_ARCHIVE = 0x20"
definition ATTR_LONG_NAME :: byte where "ATTR_LONG_NAME = 0x0F"
definition ATTR_LONG_NAME_MASK :: byte where "ATTR_LONG_NAME_MASK = 0x3F"
definition LAST_LONG_ENTRY :: byte where "LAST_LONG_ENTRY = 0x40"

record fat32BS =
  BS_jmpBoot :: "byte list"
  BS_OEMName :: "byte list"
  BPB_BytesPerSec :: u16
  BPB_SecPerClus :: byte
  BPB_RsvdSecCnt :: u16
  BPB_NumFATs :: byte
  BPB_Media :: byte
  BPB_TotSec32 :: u32
  BPB_FATSz32 :: u32
  BPB_RootClus :: u32
  BPB_FSInfo :: u16
  BPB_reserved :: "byte list"
  BS_VolLab :: "byte list"

definition sizeof_fat32BS :: nat where "sizeof_fat32BS = 512"

definition decode_fat32BS :: "byte list \<Rightarrow> fat32BS" where
  "decode_fat32BS raw =
     \<lparr>BS_jmpBoot = take 3 raw,
      BS_OEMName = take 8 (drop 3 raw),
      BPB_BytesPerSec = le16 raw 11,
      BPB_SecPerClus = raw ! 13,
      BPB_RsvdSecCnt = le16 raw 14,
      BPB_NumFATs = raw ! 16,
      BPB_Media = raw ! 21,
      BPB_TotSec32 = le32 raw 32,
      BPB_FATSz32 = le32 raw 36,
      BPB_RootClus = le32 raw 44,
      BPB_FSInfo = le16 raw 48,
      BPB_reserved = take 12 (drop 52 raw),
      BS_VolLab = take 11 (drop 71 raw)\<rparr>"

record fat32FSInfo =
  lead_sig :: u32
  free_count :: u32

definition sizeof_fat32FSInfo :: nat where "sizeof_fat32FSInfo = 512"

definition decode_fat32FSInfo :: "byte list \<Rightarrow> fat32FSInfo" where
  "decode_fat32FSInfo raw = \<lparr>lead_sig = le32 raw 0, free_count = le32 raw 488\<rparr>"

record DirInfo =
  dir_name :: "byte list"
  dir_attr :: byte
  dir_first_cluster_hi :: u16
  dir_first_cluster_lo :: u16
  dir_file_size :: u32

definition sizeof_DirInfo :: nat where "sizeof_DirInfo = 32"

definition decode_DirInfo :: "byte list \<Rightarrow> DirInfo" where
  "decode_DirInfo raw =
     \<lparr>dir_name = take 11 raw,
      dir_attr = raw ! 11,
      dir_first_cluster_hi = le16 raw 20,
      dir_first_cluster_lo = le16 raw 26,
      dir_file_size = le32 raw 28\<rparr>"

record LongNameDirInfo =
  LDIR_Ord :: byte
  LDIR_Name1 :: "u16 list"
  LDIR_Attr :: byte
  LDIR_Type :: byte
  LDIR_Chksum :: byte
  LDIR_Name2 :: "u16 list"
  LDIR_Name3 :: "u16 list"

definition sizeof_LongNameDirInfo :: nat where "sizeof_LongNameDirInfo = 32"

definition decode_LongNameDirInfo :: "byte list \<Rightarrow> LongNameDirInfo" where
  "decode_LongNameDirInfo raw =
     \<lparr>LDIR_Ord = raw ! 0,
      LDIR_Name1 = map (\<lambda>k. le16 raw (1 + 2 * k)) [0..<5],
      LDIR_Attr = raw ! 11,
      LDIR_Type = raw ! 12,
      LDIR_Chksum = raw ! 13,
      LDIR_Name2 = map (\<lambda>k. le16 raw (14 + 2 * k)) [0..<6],
      LDIR_Name3 = map (\<lambda>k. le16 raw (28 + 2 * k)) [0..<2]\<rparr>"

section \<open>Global variables\<close>

text \<open>
  The globals \<^verbatim>\<open>main\<close> fills before anything else runs. \<^verbatim>\<open>fd\<close> is threaded apart, as an
  \<^typ>\<open>fd_state\<close>; \<^verbatim>\<open>foundFile\<close> is returned by \<^verbatim>\<open>fetchFile\<close>. The \<^verbatim>\<open>off_t\<close> values are
  natural numbers: none of the sums and products the source forms on them reaches \<open>2^63\<close>.
\<close>

record globals =
  fatSectorStart :: nat
  dataSectorLocationInSectors :: nat
  entriesPerCluster :: nat
  bytesPerCluster :: nat
  bootSector :: fat32BS
  infoSector :: fat32FSInfo

datatype error = Out_Of_Fuel | Buffer_Overrun

section \<open>C strings\<close>

definition str :: "string \<Rightarrow> byte list" where
  "str cs = map of_char cs"

definition cstr :: "byte list \<Rightarrow> byte list" where
  \<comment> \<open>the string a buffer holds: its bytes up to the first NUL\<close>
  "cstr buf = takeWhile (\<lambda>b. b \<noteq> 0) buf"

definition isspace :: "byte \<Rightarrow> bool" where
  \<comment> \<open>the C locale: space, and \<^verbatim>\<open>\t \n \v \f \r\<close>\<close>
  "isspace b = (b = 0x20 \<or> (0x09 \<le> b \<and> b \<le> 0x0D))"

text \<open>
  \<^verbatim>\<open>removeTrailingSpace\<close> starts at the last character and steps back while it is above
  the first character and on white space, then cuts the string after it: the first
  character always stays. On the empty string it writes the terminator over the
  terminator.
\<close>

function removeTrailingSpace :: "byte list \<Rightarrow> byte list" where
  "removeTrailingSpace string =
     (if 1 < length string \<and> isspace (last string)
      then removeTrailingSpace (butlast string) else string)"
  by pat_completeness auto
termination
  by (relation "measure length") auto

declare removeTrailingSpace.simps [simp del]

section \<open>Following the FAT\<close>

definition getNextFatValue :: "globals \<Rightarrow> u32 \<Rightarrow> fd_state \<Rightarrow> u32 \<times> fd_state" where
  "getNextFatValue g currentCluster s =
     (let s1 = lseek (fatSectorStart g
                 + unat (word_of_nat (SIZE_OF_FAT_ENTRY div BITS_PER_BYTE) * currentCluster)) s;
          (raw, s2) = read_fd (SIZE_OF_FAT_ENTRY div BITS_PER_BYTE) s1
      in (le32 raw 0, s2))"

section \<open>Listing a directory\<close>

datatype event =
    Long_Name_Directory nat "u16 list" "byte list"
  | Directory nat "byte list"
  | Long_Name_File nat "u16 list" "byte list"
  | Short_Name_File nat "byte list"

text \<open>The local variables of \<^verbatim>\<open>readCluster\<close> that carry a long name from one slot to the
  next. \<^verbatim>\<open>charsAdded\<close> is the length of \<open>totalLongName\<close>; the buffer the source allocates
  holds 260 units.\<close>

record long_name_vars =
  longNameStarted :: bool
  totalLongName :: "u16 list"
  numLongNameEntries :: nat
  checkSum :: byte
  previousNameOrder :: byte

definition initial_vars :: long_name_vars where
  "initial_vars = \<lparr>longNameStarted = False, totalLongName = [], numLongNameEntries = 0,
     checkSum = 0, previousNameOrder = 0\<rparr>"

definition free_long_name :: "long_name_vars \<Rightarrow> long_name_vars" where
  \<comment> \<open>\<^verbatim>\<open>longNameStarted = false; free(totalLongName); totalLongName = NULL;\<close>\<close>
  "free_long_name v = v\<lparr>longNameStarted := False, totalLongName := []\<rparr>"

definition slot_offset :: "globals \<Rightarrow> u32 \<Rightarrow> nat \<Rightarrow> nat" where
  "slot_offset g clusterNum i =
     dataSectorLocationInSectors g * unat (BPB_BytesPerSec (bootSector g))
       + unat (clusterNum - 2) * bytesPerCluster g + i * sizeof_DirInfo"

definition is_long_name :: "byte \<Rightarrow> bool" where
  "is_long_name attr = (attr AND ATTR_LONG_NAME_MASK = ATTR_LONG_NAME)"

definition not_hidden_system_volume :: "byte \<Rightarrow> bool" where
  "not_hidden_system_volume attr =
     (attr AND ATTR_HIDDEN \<noteq> ATTR_HIDDEN \<and> attr AND ATTR_SYSTEM \<noteq> ATTR_SYSTEM
      \<and> attr AND ATTR_VOLUME_ID \<noteq> ATTR_VOLUME_ID)"

definition is_directory :: "byte \<Rightarrow> bool" where
  "is_directory attr =
     (\<not> is_long_name attr \<and> attr AND ATTR_DIRECTORY = ATTR_DIRECTORY
      \<and> not_hidden_system_volume attr)"

definition is_file :: "byte \<Rightarrow> bool" where
  "is_file attr =
     (\<not> is_long_name attr \<and> attr AND ATTR_DIRECTORY \<noteq> ATTR_DIRECTORY
      \<and> not_hidden_system_volume attr)"

definition first_cluster :: "DirInfo \<Rightarrow> u32" where
  "first_cluster d =
     (push_bit 16 (ucast (dir_first_cluster_hi d)) OR ucast (dir_first_cluster_lo d))
       AND MASK_FIRST_HEX"

definition long_name_text :: "long_name_vars \<Rightarrow> u16 list" where
  \<comment> \<open>the two print loops: fragments from the last stored to the first, 13 units each,
      without the units 0x0000 and 0xFFFF\<close>
  "long_name_text v =
     filter (\<lambda>u. u \<noteq> 0x0000 \<and> u \<noteq> 0xFFFF)
       (concat (map (\<lambda>k. take 13 (drop (k * 13) (totalLongName v)))
                    (rev [0..<numLongNameEntries v])))"

definition file_text :: "byte list \<Rightarrow> byte list \<Rightarrow> byte list" where
  "file_text givenName nameExtension =
     (if length nameExtension = 1 \<and> nameExtension ! 0 = 0x20 then givenName
      else givenName @ str ''.'' @ nameExtension)"

definition long_name_units :: "LongNameDirInfo \<Rightarrow> u16 list" where
  "long_name_units l = LDIR_Name1 l @ LDIR_Name2 l @ LDIR_Name3 l"

datatype action =
    Break
  | Next long_name_vars "event list"
  | Descend long_name_vars "event list" u32
  | Abort error

text \<open>The four blocks of the body of the \<^verbatim>\<open>for\<close> loop of \<^verbatim>\<open>readCluster\<close> that print or
  touch the long-name variables: a directory, a file, the first long-name slot of a run and
  a later one. Each gives what the loop does next.\<close>

definition directory_block :: "nat \<Rightarrow> long_name_vars \<Rightarrow> DirInfo \<Rightarrow> action" where
  "directory_block depth v currentDir =
     (let entryName = dir_name currentDir;
          givenName = removeTrailingSpace (cstr (take 8 entryName))
      in Descend (free_long_name v)
           [if longNameStarted v \<and> checkSum v = ChkSum entryName
            then Long_Name_Directory depth (long_name_text v) givenName
            else Directory depth givenName]
           (first_cluster currentDir))"

definition file_block :: "nat \<Rightarrow> long_name_vars \<Rightarrow> DirInfo \<Rightarrow> action" where
  "file_block depth v currentDir =
     (let entryName = dir_name currentDir;
          givenName = removeTrailingSpace (cstr (take 8 entryName));
          nameExtension = removeTrailingSpace (cstr (take 3 (drop 8 entryName)))
      in Next (free_long_name v)
           [if longNameStarted v \<and> checkSum v = ChkSum entryName
            then Long_Name_File depth (long_name_text v) (file_text givenName nameExtension)
            else Short_Name_File depth (file_text givenName nameExtension)])"

definition first_long_block :: "long_name_vars \<Rightarrow> LongNameDirInfo \<Rightarrow> action" where
  "first_long_block v currentLongDir =
     (if LDIR_Ord currentLongDir AND LAST_LONG_ENTRY = LAST_LONG_ENTRY
         \<and> LDIR_Type currentLongDir = 0
      then Next \<lparr>longNameStarted = True,
                 totalLongName = long_name_units currentLongDir,
                 numLongNameEntries = 1,
                 checkSum = LDIR_Chksum currentLongDir,
                 previousNameOrder = LDIR_Ord currentLongDir\<rparr> []
      else Next v [])"

text \<open>A later slot is copied behind the \<^verbatim>\<open>charsAdded\<close> units stored so far. The buffer
  holds 260 units; a copy that would pass its end is \<^const>\<open>Buffer_Overrun\<close>.\<close>

definition next_long_block :: "long_name_vars \<Rightarrow> LongNameDirInfo \<Rightarrow> action" where
  "next_long_block v currentLongDir =
     (if checkSum v = LDIR_Chksum currentLongDir
         \<and> LDIR_Ord currentLongDir < previousNameOrder v
         \<and> LDIR_Type currentLongDir = 0
      then (if 260 < length (totalLongName v) + 13 then Abort Buffer_Overrun
            else Next (v\<lparr>previousNameOrder := LDIR_Ord currentLongDir,
                          numLongNameEntries := numLongNameEntries v + 1,
                          totalLongName := totalLongName v @ long_name_units currentLongDir\<rparr>)
                   [])
      else Next (free_long_name v) [])"

text \<open>One pass of the body of the \<^verbatim>\<open>for\<close> loop of \<^verbatim>\<open>readCluster\<close>, up to the recursive
  call: what the slot makes the loop do, the lines it prints and the long-name variables
  it leaves.\<close>

definition process_entry ::
  "globals \<Rightarrow> u32 \<Rightarrow> nat \<Rightarrow> nat \<Rightarrow> long_name_vars \<Rightarrow> fd_state \<Rightarrow> action \<times> fd_state" where
  "process_entry g clusterNum depth i v s =
     (let s1 = lseek (slot_offset g clusterNum i) s;
          (raw, s2) = read_fd sizeof_DirInfo s1;
          currentDir = decode_DirInfo raw;
          entryName = dir_name currentDir
      in if entryName ! 0 = 0x00 then (Break, s2)
         else if (1 < i \<or> depth = 0) \<and> entryName ! 0 \<noteq> 0xE5 then
           (if is_directory (dir_attr currentDir) then (directory_block depth v currentDir, s2)
            else if is_file (dir_attr currentDir) then (file_block depth v currentDir, s2)
            else if is_long_name (dir_attr currentDir) \<and> \<not> longNameStarted v then
              (let s3 = lseek (slot_offset g clusterNum i) s2;
                   (raw', s4) = read_fd sizeof_LongNameDirInfo s3
               in (first_long_block v (decode_LongNameDirInfo raw'), s4))
            else if is_long_name (dir_attr currentDir) \<and> longNameStarted v then
              (let s3 = lseek (slot_offset g clusterNum i) s2;
                   (raw', s4) = read_fd sizeof_LongNameDirInfo s3
               in (next_long_block v (decode_LongNameDirInfo raw'), s4))
            else if longNameStarted v then (Next (free_long_name v) [], s2)
            else (Next v [], s2))
         else (Next v [], s2))"

text \<open>The same pass as a function of the 32 bytes of the slot, which both reads return.\<close>

definition slot_action :: "nat \<Rightarrow> nat \<Rightarrow> long_name_vars \<Rightarrow> byte list \<Rightarrow> action" where
  "slot_action depth i v raw =
     (if raw ! 0 = 0x00 then Break
      else if (1 < i \<or> depth = 0) \<and> raw ! 0 \<noteq> 0xE5 then
        (if is_directory (raw ! 11) then directory_block depth v (decode_DirInfo raw)
         else if is_file (raw ! 11) then file_block depth v (decode_DirInfo raw)
         else if is_long_name (raw ! 11) \<and> \<not> longNameStarted v
           then first_long_block v (decode_LongNameDirInfo raw)
         else if is_long_name (raw ! 11) \<and> longNameStarted v
           then next_long_block v (decode_LongNameDirInfo raw)
         else if longNameStarted v then Next (free_long_name v) []
         else Next v [])
      else Next v [])"

text \<open>
  \<^verbatim>\<open>readCluster\<close> calls itself for every subdirectory and for the next cluster of the
  chain, and nothing bounds either on an image whose FAT or directories loop: the model
  counts the nesting of calls down from \<open>fuel\<close> and answers \<^const>\<open>Out_Of_Fuel\<close> at 0.
  \<open>entries_loop\<close> is the \<^verbatim>\<open>for\<close> loop over the slot indices still to come.
\<close>

function readCluster ::
    "nat \<Rightarrow> globals \<Rightarrow> u32 \<Rightarrow> nat \<Rightarrow> fd_state \<Rightarrow> error + event list \<times> fd_state"
  and entries_loop ::
    "nat \<Rightarrow> globals \<Rightarrow> u32 \<Rightarrow> nat \<Rightarrow> nat list \<Rightarrow> long_name_vars \<Rightarrow> fd_state
       \<Rightarrow> error + event list \<times> fd_state"
where
  "readCluster 0 g clusterNum depth s = Inl Out_Of_Fuel"
| "readCluster (Suc fuel) g clusterNum depth s =
     (case entries_loop fuel g clusterNum depth [0..<entriesPerCluster g] initial_vars s of
        Inl e \<Rightarrow> Inl e
      | Inr (evs, s1) \<Rightarrow>
          (let (nxt, s2) = getNextFatValue g clusterNum s1;
               newCluster = nxt AND MASK_FIRST_HEX
           in if newCluster < END_OF_CLUSTER_CHAIN
              then (case readCluster fuel g newCluster depth s2 of
                      Inl e \<Rightarrow> Inl e
                    | Inr (evs', s3) \<Rightarrow> Inr (evs @ evs', s3))
              else Inr (evs, s2)))"
| "entries_loop fuel g clusterNum depth [] v s = Inr ([], s)"
| "entries_loop fuel g clusterNum depth (i # is) v s =
     (case process_entry g clusterNum depth i v s of
        (Break, s1) \<Rightarrow> Inr ([], s1)
      | (Abort e, s1) \<Rightarrow> Inl e
      | (Next v' evs, s1) \<Rightarrow>
          (case entries_loop fuel g clusterNum depth is v' s1 of
             Inl e \<Rightarrow> Inl e
           | Inr (evs', s2) \<Rightarrow> Inr (evs @ evs', s2))
      | (Descend v' evs newDirectoryCluster, s1) \<Rightarrow>
          (case readCluster fuel g newDirectoryCluster (depth + 1) s1 of
             Inl e \<Rightarrow> Inl e
           | Inr (sub, s2) \<Rightarrow>
               (case entries_loop fuel g clusterNum depth is v' s2 of
                  Inl e \<Rightarrow> Inl e
                | Inr (evs', s3) \<Rightarrow> Inr (evs @ sub @ evs', s3))))"
  by pat_completeness auto
termination
  by (relation "measures
        [\<lambda>x. case x of Inl (fuel, _) \<Rightarrow> 2 * fuel | Inr (fuel, _) \<Rightarrow> 2 * fuel + 1,
         \<lambda>x. case x of Inl _ \<Rightarrow> 0 | Inr (_, _, _, _, is, _) \<Rightarrow> length is]") auto

section \<open>Extracting a file\<close>

text \<open>
  \<^verbatim>\<open>copyFile\<close>: the \<^verbatim>\<open>while\<close> loop, with the bytes handed to \<^verbatim>\<open>fwrite\<close> so far in \<open>out\<close>.
  With \<^verbatim>\<open>bytesPerCluster\<close> 0 (no check excludes it) a pass writes nothing and leaves
  \<^verbatim>\<open>bytesLeft\<close> as it is, so the loop is bounded by \<open>fuel\<close> as well.
\<close>

definition cluster_offset :: "globals \<Rightarrow> u32 \<Rightarrow> nat" where
  "cluster_offset g clusterNum =
     dataSectorLocationInSectors g * unat (BPB_BytesPerSec (bootSector g))
       + unat (clusterNum - 2) * bytesPerCluster g"

fun copy_loop ::
  "nat \<Rightarrow> u32 \<Rightarrow> globals \<Rightarrow> u32 \<Rightarrow> u32 \<Rightarrow> byte list \<Rightarrow> fd_state
     \<Rightarrow> error + byte list \<times> fd_state" where
  "copy_loop 0 EOC g bytesLeft startingCluster out s =
     (if bytesLeft \<noteq> 0 \<and> startingCluster < EOC \<and> startingCluster \<noteq> 0
      then Inl Out_Of_Fuel else Inr (out, s))"
| "copy_loop (Suc fuel) EOC g bytesLeft startingCluster out s =
     (if bytesLeft \<noteq> 0 \<and> startingCluster < EOC \<and> startingCluster \<noteq> 0 then
        (let s1 = lseek (cluster_offset g startingCluster) s;
             (clusterBytes, s2) = read_fd (bytesPerCluster g) s1
         in if bytesPerCluster g \<le> unat bytesLeft then
              (let (nxt, s3) = getNextFatValue g startingCluster s2
               in copy_loop fuel EOC g (bytesLeft - word_of_nat (bytesPerCluster g))
                    (nxt AND MASK_FIRST_HEX) (out @ clusterBytes) s3)
            else copy_loop fuel EOC g 0 startingCluster
                   (out @ take (unat bytesLeft) clusterBytes) s2)
      else Inr (out, s))"

definition copyFile ::
  "nat \<Rightarrow> u32 \<Rightarrow> globals \<Rightarrow> DirInfo \<Rightarrow> u32 \<Rightarrow> byte list \<Rightarrow> byte list \<Rightarrow> fd_state
     \<Rightarrow> error + (byte list \<times> byte list) \<times> fd_state" where
  "copyFile fuel EOC g targetDir startingCluster givenName nameExtension s =
     (let destination = str ''output/'' @ givenName @ str ''.'' @ nameExtension
      in case copy_loop fuel EOC g (dir_file_size targetDir) startingCluster [] s of
           Inl e \<Rightarrow> Inl e
         | Inr (out, s') \<Rightarrow> Inr ((destination, out), s'))"

section \<open>Finding a file by its path\<close>

datatype fetch_action =
    F_Break
  | F_Next
  | F_Descend u32
  | F_Copy DirInfo u32 "byte list" "byte list"

text \<open>One pass of the body of the \<^verbatim>\<open>for\<close> loop of \<^verbatim>\<open>fetchFile\<close>, up to the call it makes.
  \<^verbatim>\<open>strcmp\<close> of two strings is 0 when they are the same bytes.\<close>

definition fetch_entry ::
  "globals \<Rightarrow> u32 \<Rightarrow> byte list \<Rightarrow> nat \<Rightarrow> nat \<Rightarrow> fd_state \<Rightarrow> fetch_action \<times> fd_state" where
  "fetch_entry g clusterNum target numLeft i s =
     (let s1 = lseek (slot_offset g clusterNum i) s;
          (raw, s2) = read_fd sizeof_DirInfo s1;
          currentDir = decode_DirInfo raw;
          entryName = dir_name currentDir
      in if entryName ! 0 = 0x00 then (F_Break, s2)
         else if entryName ! 0 \<noteq> 0xE5 then
           (let givenName = removeTrailingSpace (cstr (take 8 entryName));
                nameExtension = cstr (take 3 (drop 8 entryName))
            in if numLeft \<noteq> 0 \<and> is_directory (dir_attr currentDir) then
                 (if target = givenName then (F_Descend (first_cluster currentDir), s2)
                  else (F_Next, s2))
               else if numLeft = 0 \<and> is_file (dir_attr currentDir) then
                 (let fullName = [] @ givenName @ str ''.'' @ nameExtension
                  in if target = fullName
                     then (F_Copy currentDir (first_cluster currentDir) givenName nameExtension,
                           s2)
                     else (F_Next, s2))
               else (F_Next, s2))
         else (F_Next, s2))"

text \<open>The same pass as a function of the 32 bytes of the slot.\<close>

definition fetch_slot_action :: "byte list \<Rightarrow> nat \<Rightarrow> byte list \<Rightarrow> fetch_action" where
  "fetch_slot_action target numLeft raw =
     (if raw ! 0 = 0x00 then F_Break
      else if raw ! 0 \<noteq> 0xE5 then
        (if numLeft \<noteq> 0 \<and> is_directory (raw ! 11) then
           (if target = removeTrailingSpace (cstr (take 8 raw))
            then F_Descend (first_cluster (decode_DirInfo raw)) else F_Next)
         else if numLeft = 0 \<and> is_file (raw ! 11) then
           (if target = removeTrailingSpace (cstr (take 8 raw)) @ str ''.''
                          @ cstr (take 3 (drop 8 raw))
            then F_Copy (decode_DirInfo raw) (first_cluster (decode_DirInfo raw))
                   (removeTrailingSpace (cstr (take 8 raw))) (cstr (take 3 (drop 8 raw)))
            else F_Next)
         else F_Next)
      else F_Next)"

text \<open>
  \<open>target\<close> is the token \<^verbatim>\<open>strtok\<close> returned last (\<open>None\<close> for \<^verbatim>\<open>NULL\<close>) and \<open>rest\<close> the
  tokens it has still to return. The result is: was \<^verbatim>\<open>foundTarget\<close> set (for the loop),
  was \<^verbatim>\<open>foundFile\<close> set, the files written.
\<close>

function fetchFile ::
    "nat \<Rightarrow> u32 \<Rightarrow> globals \<Rightarrow> u32 \<Rightarrow> byte list option \<Rightarrow> byte list list \<Rightarrow> nat \<Rightarrow> fd_state
       \<Rightarrow> error + (bool \<times> (byte list \<times> byte list) list) \<times> fd_state"
  and fetch_loop ::
    "nat \<Rightarrow> u32 \<Rightarrow> globals \<Rightarrow> u32 \<Rightarrow> byte list \<Rightarrow> byte list list \<Rightarrow> nat \<Rightarrow> nat list
       \<Rightarrow> fd_state \<Rightarrow> error + (bool \<times> bool \<times> (byte list \<times> byte list) list) \<times> fd_state"
where
  "fetchFile 0 EOC g clusterNum target rest numLeft s = Inl Out_Of_Fuel"
| "fetchFile (Suc fuel) EOC g clusterNum target rest numLeft s =
     (case target of
        None \<Rightarrow> Inr ((False, []), s)
      | Some t \<Rightarrow>
          if length t = 0 then Inr ((False, []), s)
          else
            (case fetch_loop fuel EOC g clusterNum t rest numLeft [0..<entriesPerCluster g] s of
               Inl e \<Rightarrow> Inl e
             | Inr ((foundTarget, found, written), s1) \<Rightarrow>
                 (let (nxt, s2) = getNextFatValue g clusterNum s1;
                      newCluster = nxt AND MASK_FIRST_HEX
                  in if \<not> foundTarget \<and> newCluster < END_OF_CLUSTER_CHAIN
                     then fetchFile fuel EOC g newCluster target rest numLeft s2
                     else Inr ((found, written), s2))))"
| "fetch_loop fuel EOC g clusterNum t rest numLeft [] s = Inr ((False, False, []), s)"
| "fetch_loop fuel EOC g clusterNum t rest numLeft (i # is) s =
     (case fetch_entry g clusterNum t numLeft i s of
        (F_Break, s1) \<Rightarrow> Inr ((False, False, []), s1)
      | (F_Next, s1) \<Rightarrow> fetch_loop fuel EOC g clusterNum t rest numLeft is s1
      | (F_Descend newCluster, s1) \<Rightarrow>
          (case fetchFile fuel EOC g newCluster
                  (case rest of [] \<Rightarrow> None | t' # _ \<Rightarrow> Some t') (tl rest) (numLeft - 1) s1 of
             Inl e \<Rightarrow> Inl e
           | Inr ((found, written), s2) \<Rightarrow> Inr ((True, found, written), s2))
      | (F_Copy currentDir newCluster givenName nameExtension, s1) \<Rightarrow>
          (case copyFile fuel EOC g currentDir newCluster givenName nameExtension s1 of
             Inl e \<Rightarrow> Inl e
           | Inr (file, s2) \<Rightarrow> Inr ((True, True, [file]), s2)))"
  by pat_completeness auto
termination
  by (relation "measures
        [\<lambda>x. case x of Inl (fuel, _) \<Rightarrow> 2 * fuel | Inr (fuel, _) \<Rightarrow> 2 * fuel + 1,
         \<lambda>x. case x of Inl _ \<Rightarrow> 0 | Inr (_, _, _, _, _, _, _, is, _) \<Rightarrow> length is]") auto

section \<open>The volume report\<close>

record info_report =
  driveName :: "byte list"
  OEMName :: "byte list"
  freeSpace :: nat
  totalSpace :: nat
  totalUsableSpace :: nat
  clusterSizeSectors :: nat
  clusterSizeBytes :: nat

definition printInfo :: "globals \<Rightarrow> info_report" where
  "printInfo g =
     (let bs = bootSector g in
      \<lparr>driveName = cstr (take 11 (BS_VolLab bs)),
       OEMName = cstr (take 8 (BS_OEMName bs)),
       freeSpace =
         unat ((free_count (infoSector g) * ucast (BPB_BytesPerSec bs) * ucast (BPB_SecPerClus bs))
               div word_of_nat BYTES_PER_KB),
       totalSpace =
         unat ((BPB_TotSec32 bs * ucast (BPB_BytesPerSec bs)) div word_of_nat BYTES_PER_KB),
       totalUsableSpace =
         unat (((BPB_TotSec32 bs - ucast (BPB_RsvdSecCnt bs)
                  - BPB_FATSz32 bs * ucast (BPB_NumFATs bs)) * ucast (BPB_BytesPerSec bs))
               div word_of_nat BYTES_PER_KB),
       clusterSizeSectors = unat (BPB_SecPerClus bs),
       clusterSizeBytes = unat (BPB_BytesPerSec bs) * unat (BPB_SecPerClus bs)\<rparr>)"

section \<open>The program\<close>

datatype exit_code = EXIT_SUCCESS | EXIT_FAILURE

datatype out_line =
    Message string
  | Wrong_Parameter_Count nat
  | Info info_report
  | Listed event

record outcome =
  exit_status :: exit_code
  stdout :: "out_line list"
  files :: "(byte list \<times> byte list) list"
  fd_final :: fd_state

definition open_rdonly :: "(nat \<Rightarrow> byte) \<Rightarrow> fd_state" where
  "open_rdonly img = \<lparr>file_bytes = img, file_pos = 0\<rparr>"

definition failure :: "out_line \<Rightarrow> fd_state \<Rightarrow> outcome" where
  "failure line s = \<lparr>exit_status = EXIT_FAILURE, stdout = [line], files = [], fd_final = s\<rparr>"

text \<open>The reads and the five assignments that open \<^verbatim>\<open>main\<close>. A product of two 16-bit
  fields is formed in \<^verbatim>\<open>int\<close>; the model takes it as it is on the fields of an image whose
  product stays below \<open>2^31\<close>.\<close>

definition startup :: "fd_state \<Rightarrow> globals \<times> fd_state" where
  "startup s0 =
     (let (raw, s1) = read_fd sizeof_fat32BS s0;
          bs = decode_fat32BS raw;
          s2 = lseek (unat (BPB_BytesPerSec bs) * unat (BPB_FSInfo bs)) s1;
          (raw', s3) = read_fd sizeof_fat32FSInfo s2
      in (\<lparr>fatSectorStart = unat (BPB_RsvdSecCnt bs) * unat (BPB_BytesPerSec bs),
           dataSectorLocationInSectors =
             unat (ucast (BPB_RsvdSecCnt bs) + BPB_FATSz32 bs * ucast (BPB_NumFATs bs) :: u32),
           entriesPerCluster =
             (unat (BPB_SecPerClus bs) * unat (BPB_BytesPerSec bs)) div sizeof_DirInfo,
           bytesPerCluster = unat (BPB_SecPerClus bs) * unat (BPB_BytesPerSec bs),
           bootSector = bs,
           infoSector = decode_fat32FSInfo raw'\<rparr>, s3))"

text \<open>The eight checks of \<^verbatim>\<open>main\<close>, in its order; \<open>Some\<close> is the line printed before
  \<^verbatim>\<open>exit(EXIT_FAILURE)\<close>.\<close>

definition validate :: "globals \<Rightarrow> fd_state \<Rightarrow> string option \<times> fd_state" where
  "validate g s =
     (let bs = bootSector g in
      if lead_sig (infoSector g) \<noteq> 0x41615252
      then (Some ''Info sector does not exist, exiting program.'', s)
      else if BS_jmpBoot bs ! 0 \<noteq> 0xEB \<and> BS_jmpBoot bs ! 0 \<noteq> 0xE9
      then (Some ''Jump validation failed, exiting program.'', s)
      else if BPB_RootClus bs < 2
      then (Some ''BPB_RootClus validation failed, exiting program.'', s)
      else if BPB_FATSz32 bs = 0
      then (Some ''BPB_FATSz32 validation failed, exiting program.'', s)
      else if BPB_TotSec32 bs < 65525
      then (Some ''BPB_TotSec32 validation failed, exiting program.'', s)
      else if list_ex (\<lambda>b. b \<noteq> 0) (take 12 (BPB_reserved bs))
      then (Some ''BPB_reserved validation failed, exiting program.'', s)
      else
        (let s1 = lseek (fatSectorStart g + (SIZE_OF_FAT_ENTRY div BITS_PER_BYTE) * 0) s;
             (raw, s2) = read_fd (SIZE_OF_FAT_ENTRY div BITS_PER_BYTE) s1;
             fatValidation = le32 raw 0
         in if fatValidation AND MASK_FIRST_HEX \<noteq> ucast (BPB_Media bs) + 0x0FFFFF00
            then (Some ''FAT validation 0 failed, exiting program.'', s2)
            else
              (let s3 = lseek (fatSectorStart g + (SIZE_OF_FAT_ENTRY div BITS_PER_BYTE) * 1) s2;
                   (raw', s4) = read_fd (SIZE_OF_FAT_ENTRY div BITS_PER_BYTE) s3;
                   fatValidation = le32 raw' 0
               in if fatValidation AND MASK_FIRST_HEX \<noteq> 0x0FFFFFFF
                  then (Some ''FAT validation 1 failed, exiting program.'', s4)
                  else (None, s4))))"

fun split_slash :: "byte list \<Rightarrow> byte list list" where
  "split_slash [] = [[]]"
| "split_slash (c # cs) =
     (if c = 0x2F then [] # split_slash cs
      else (case split_slash cs of [] \<Rightarrow> [[c]] | t # ts \<Rightarrow> (c # t) # ts))"

definition strtok_tokens :: "byte list \<Rightarrow> byte list list" where
  \<comment> \<open>what successive calls of \<^verbatim>\<open>strtok(.., "/")\<close> return: the non-empty pieces between slashes\<close>
  "strtok_tokens path = filter (\<lambda>t. t \<noteq> []) (split_slash path)"

definition dispatch ::
  "nat \<Rightarrow> u32 \<Rightarrow> byte list list \<Rightarrow> globals \<Rightarrow> fd_state \<Rightarrow> error + outcome" where
  "dispatch fuel EOC argv g s =
     (if cstr (argv ! 2) = str ''info'' then
        Inr \<lparr>exit_status = EXIT_SUCCESS, stdout = [Info (printInfo g), Message ''Done''],
             files = [], fd_final = s\<rparr>
      else if cstr (argv ! 2) = str ''list'' then
        (case readCluster fuel g (BPB_RootClus (bootSector g) AND MASK_FIRST_HEX) 0 s of
           Inl e \<Rightarrow> Inl e
         | Inr (evs, s') \<Rightarrow>
             Inr \<lparr>exit_status = EXIT_SUCCESS, stdout = map Listed evs @ [Message ''Done''],
                  files = [], fd_final = s'\<rparr>)
      else if cstr (argv ! 2) = str ''get'' then
        (if length argv \<noteq> 4 then Inr (failure (Wrong_Parameter_Count (length argv)) s)
         else
           (let path = cstr (argv ! 3);
                count = length (filter (\<lambda>c. c = 0x2F) path);
                tokens = strtok_tokens path
            in case fetchFile fuel EOC g (BPB_RootClus (bootSector g) AND MASK_FIRST_HEX)
                      (case tokens of [] \<Rightarrow> None | t # _ \<Rightarrow> Some t) (tl tokens) count s of
                 Inl e \<Rightarrow> Inl e
               | Inr ((foundFile, written), s') \<Rightarrow>
                   if foundFile
                   then Inr \<lparr>exit_status = EXIT_SUCCESS,
                             stdout = [Message ''File copied into output folder.'',
                                       Message ''Done''],
                             files = written, fd_final = s'\<rparr>
                   else Inr \<lparr>exit_status = EXIT_FAILURE,
                             stdout = [Message ''Error, file could not be found. Exiting.''],
                             files = written, fd_final = s'\<rparr>))
      else Inr (failure (Message ''Incorrect parameters, exiting program.'') s))"

definition main :: "nat \<Rightarrow> u32 \<Rightarrow> byte list list \<Rightarrow> (nat \<Rightarrow> byte) \<Rightarrow> error + outcome" where
  "main fuel EOC argv img =
     (if length argv < 3
      then Inr (failure (Message ''Incorrect parameters, exiting program.'') (open_rdonly img))
      else
        (let (g, s) = startup (open_rdonly img)
         in case validate g s of
              (Some line, s') \<Rightarrow> Inr (failure (Message line) s')
            | (None, s') \<Rightarrow> dispatch fuel EOC argv g s'))"

section \<open>The image as the specification reads it\<close>

text \<open>What the specification calls the FAT entry of a cluster, its successor, a directory
  slot and the data of a cluster, as functions of the bytes of the image alone.\<close>

definition fat_entry :: "globals \<Rightarrow> (nat \<Rightarrow> byte) \<Rightarrow> u32 \<Rightarrow> u32" where
  "fat_entry g img n = le32 (bytes_at img (fatSectorStart g + unat (4 * n)) 4) 0"

definition successor :: "globals \<Rightarrow> (nat \<Rightarrow> byte) \<Rightarrow> u32 \<Rightarrow> u32" where
  "successor g img n = fat_entry g img n AND 0x0FFFFFFF"

definition slot_raw :: "globals \<Rightarrow> (nat \<Rightarrow> byte) \<Rightarrow> u32 \<Rightarrow> nat \<Rightarrow> byte list" where
  "slot_raw g img c i = bytes_at img (slot_offset g c i) 32"

definition cluster_data :: "globals \<Rightarrow> (nat \<Rightarrow> byte) \<Rightarrow> u32 \<Rightarrow> byte list" where
  "cluster_data g img c = bytes_at img (cluster_offset g c) (bytesPerCluster g)"

text \<open>The cluster chain of a directory: the clusters from \<open>c\<close> on, up to the one whose
  successor is an end-of-chain value; \<open>None\<close> when \<open>n\<close> clusters do not reach it.\<close>

fun dir_chain :: "nat \<Rightarrow> globals \<Rightarrow> (nat \<Rightarrow> byte) \<Rightarrow> u32 \<Rightarrow> u32 list option" where
  "dir_chain 0 g img c = None"
| "dir_chain (Suc n) g img c =
     (if successor g img c < 0x0FFFFFF8
      then map_option ((#) c) (dir_chain n g img (successor g img c))
      else Some [c])"

text \<open>The first \<open>n\<close> clusters of the chain of a file.\<close>

fun chain_from :: "nat \<Rightarrow> globals \<Rightarrow> (nat \<Rightarrow> byte) \<Rightarrow> u32 \<Rightarrow> u32 list" where
  "chain_from 0 g img c = []"
| "chain_from (Suc n) g img c = c # chain_from n g img (successor g img c)"

definition clusters_needed :: "globals \<Rightarrow> nat \<Rightarrow> nat" where
  \<comment> \<open>\<open>ceil(S / bytesPerCluster)\<close>\<close>
  "clusters_needed g S = (S + bytesPerCluster g - 1) div bytesPerCluster g"

definition final_length :: "globals \<Rightarrow> nat \<Rightarrow> nat" where
  \<comment> \<open>\<open>S mod bytesPerCluster\<close>, a full cluster when \<open>S\<close> is an exact multiple\<close>
  "final_length g S =
     (if S mod bytesPerCluster g = 0 then bytesPerCluster g else S mod bytesPerCluster g)"

definition extracted :: "globals \<Rightarrow> (nat \<Rightarrow> byte) \<Rightarrow> nat \<Rightarrow> u32 list \<Rightarrow> byte list" where
  \<comment> \<open>what the sink is to receive of a file of \<open>S\<close> bytes in the clusters \<open>cs\<close>: every
      cluster but the last in full, and the last one cut to \<^const>\<open>final_length\<close>\<close>
  "extracted g img S cs =
     (if S = 0 then []
      else concat (map (cluster_data g img) (butlast cs))
           @ take (final_length g S) (cluster_data g img (last cs)))"

subsection \<open>The checks on a volume\<close>




subsection \<open>What a listing shows of a directory\<close>

fun ev_depth :: "event \<Rightarrow> nat" where
  "ev_depth (Long_Name_Directory d _ _) = d"
| "ev_depth (Directory d _) = d"
| "ev_depth (Long_Name_File d _ _) = d"
| "ev_depth (Short_Name_File d _) = d"

text \<open>An event without its long name: is it a directory, its depth, the short name shown.\<close>

fun ev_line :: "event \<Rightarrow> bool \<times> nat \<times> byte list" where
  "ev_line (Long_Name_Directory d _ n) = (True, d, n)"
| "ev_line (Directory d n) = (True, d, n)"
| "ev_line (Long_Name_File d _ n) = (False, d, n)"
| "ev_line (Short_Name_File d n) = (False, d, n)"

definition short_base :: "byte list \<Rightarrow> byte list" where
  "short_base raw = removeTrailingSpace (cstr (take 8 raw))"

definition entry_line :: "nat \<Rightarrow> byte list \<Rightarrow> bool \<times> nat \<times> byte list" where
  "entry_line depth raw =
     (if is_directory (raw ! 11) then (True, depth, short_base raw)
      else (False, depth,
            file_text (short_base raw) (removeTrailingSpace (cstr (take 3 (drop 8 raw))))))"

definition live_short :: "byte list \<Rightarrow> bool" where
  \<comment> \<open>a short-form entry that is neither deleted nor the end marker\<close>
  "live_short raw = (raw ! 0 \<noteq> 0x00 \<and> raw ! 0 \<noteq> 0xE5 \<and> \<not> is_long_name (raw ! 11))"

definition live_short_entries :: "globals \<Rightarrow> (nat \<Rightarrow> byte) \<Rightarrow> u32 list \<Rightarrow> byte list list" where
  "live_short_entries g img cs =
     concat (map (\<lambda>c. filter live_short (map (slot_raw g img c) [0..<entriesPerCluster g])) cs)"

definition shown :: "byte list \<Rightarrow> bool" where
  \<comment> \<open>not deleted, and a directory or a file that is not hidden, system or volume label\<close>
  "shown raw = (raw ! 0 \<noteq> 0xE5 \<and> (is_directory (raw ! 11) \<or> is_file (raw ! 11)))"

definition cluster_listing ::
  "globals \<Rightarrow> (nat \<Rightarrow> byte) \<Rightarrow> nat \<Rightarrow> bool \<Rightarrow> u32 \<Rightarrow> (bool \<times> nat \<times> byte list) list" where
  "cluster_listing g img depth skip2 c =
     map (\<lambda>i. entry_line depth (slot_raw g img c i))
       (filter (\<lambda>i. shown (slot_raw g img c i) \<and> (skip2 \<longrightarrow> 1 < i))
          (takeWhile (\<lambda>i. slot_raw g img c i ! 0 \<noteq> 0x00) [0..<entriesPerCluster g]))"

definition directory_listing ::
  "globals \<Rightarrow> (nat \<Rightarrow> byte) \<Rightarrow> nat \<Rightarrow> u32 list \<Rightarrow> (bool \<times> nat \<times> byte list) list" where
  "directory_listing g img depth cs =
     (case cs of
        [] \<Rightarrow> []
      | c # rest \<Rightarrow> cluster_listing g img depth (depth \<noteq> 0) c
                    @ concat (map (cluster_listing g img depth False) rest))"

definition no_end_marker :: "globals \<Rightarrow> (nat \<Rightarrow> byte) \<Rightarrow> u32 \<Rightarrow> bool" where
  "no_end_marker g img c =
     list_all (\<lambda>i. slot_raw g img c i ! 0 \<noteq> 0x00) [0..<entriesPerCluster g]"

subsection \<open>Short extensions\<close>

definition short_extension :: "byte list \<Rightarrow> bool" where
  \<comment> \<open>the extension field has fewer than three characters: it ends in a padding space\<close>
  "short_extension raw = (raw ! 8 \<noteq> 0 \<and> raw ! 9 \<noteq> 0 \<and> raw ! 10 = 0x20)"

definition files_have_short_extension :: "globals \<Rightarrow> (nat \<Rightarrow> byte) \<Rightarrow> u32 \<Rightarrow> bool" where
  "files_have_short_extension g img c =
     list_all (\<lambda>i. is_file (slot_raw g img c i ! 11) \<longrightarrow> short_extension (slot_raw g img c i))
       [0..<entriesPerCluster g]"

section \<open>Example volumes\<close>

definition sparse :: "(nat \<times> byte) list \<Rightarrow> nat \<Rightarrow> byte" where
  \<comment> \<open>an image that is 0 wherever the list places no byte\<close>
  "sparse al i = (case map_of al i of Some b \<Rightarrow> b | None \<Rightarrow> 0)"

definition place :: "nat \<Rightarrow> byte list \<Rightarrow> (nat \<times> byte) list" where
  "place off bs = zip [off ..< off + length bs] bs"

text \<open>
  A volume that passes the checks: 512 bytes per sector and one sector per cluster
  (16 slots per cluster), two reserved sectors with the FS-info sector in sector 1, one FAT
  of one sector at offset 1024, the data region at offset 1536 with the root directory in
  cluster 2, media byte 0xF8 and 65525 sectors.
\<close>

definition header :: "(nat \<times> byte) list" where
  "header =
     place 0 [0xEB] @ place 11 [0x00, 0x02, 0x01, 0x02, 0x00, 0x01] @ place 21 [0xF8]
     @ place 32 [0xF5, 0xFF, 0x00, 0x00, 0x01, 0x00, 0x00, 0x00] @ place 44 [0x02, 0x00, 0x00, 0x00, 0x01, 0x00]
     @ place 512 [0x52, 0x52, 0x61, 0x41]
     @ place 1024 [0xF8, 0xFF, 0xFF, 0x0F, 0xFF, 0xFF, 0xFF, 0x0F]"

definition short_entry :: "string \<Rightarrow> byte \<Rightarrow> byte \<Rightarrow> byte \<Rightarrow> byte list" where
  \<comment> \<open>a 32-byte short-form slot: the 11 name bytes, the attribute byte, the low byte of
      the start cluster and the low byte of the size\<close>
  "short_entry name attr cluster sz =
     str name @ [attr] @ replicate 14 0 @ [cluster, 0] @ [sz, 0, 0, 0]"

definition long_entry :: "byte \<Rightarrow> byte \<Rightarrow> string \<Rightarrow> byte list" where
  \<comment> \<open>a 32-byte long-name slot: order byte, checksum byte and up to 13 ASCII characters,
      followed by the terminator 0x0000 and the padding 0xFFFF\<close>
  "long_entry ord chk name =
     (let units = take 13 (map (\<lambda>c. [of_char c, 0]) name @ [[0, 0]] @ replicate 12 [0xFF, 0xFF])
      in [ord] @ concat (take 5 units) @ [0x0F, 0x00, chk]
         @ concat (take 6 (drop 5 units)) @ [0, 0] @ concat (drop 11 units))"

definition geometry :: globals where
  "geometry = fst (startup (open_rdonly (sparse header)))"

definition volume :: "(nat \<times> byte) list \<Rightarrow> nat \<Rightarrow> byte" where
  \<comment> \<open>the volume above with more bytes placed behind the first two FAT entries\<close>
  "volume extra = sparse (header @ extra)"

definition end_of_chain :: "byte list" where
  "end_of_chain = [0xFF, 0xFF, 0xFF, 0x0F]"

text \<open>The root directory starts with the end marker, its chain goes on to cluster 3, and
  cluster 3 holds the file \<^verbatim>\<open>A.TXT\<close>.\<close>

definition marker_then_file :: "(nat \<times> byte) list" where
  "marker_then_file =
     place 1032 ([0x03, 0, 0, 0] @ end_of_chain)
     @ place 2048 (short_entry ''A       TXT'' 0x20 0 5)"

text \<open>The root directory holds the directory \<^verbatim>\<open>SUB\<close>, whose one cluster holds the files
  \<^verbatim>\<open>A.TXT\<close>, \<^verbatim>\<open>B.TXT\<close> and \<^verbatim>\<open>C.TXT\<close> in its slots 0, 1 and 2.\<close>

definition files_in_subdirectory :: "(nat \<times> byte) list" where
  "files_in_subdirectory =
     place 1032 (end_of_chain @ end_of_chain)
     @ place 1536 (short_entry ''SUB        '' 0x10 3 0)
     @ place 2048 (short_entry ''A       TXT'' 0x20 0 5 @ short_entry ''B       TXT'' 0x20 0 5
                   @ short_entry ''C       TXT'' 0x20 0 5)"

text \<open>The root directory holds a long-name slot of order 0x43 (last, third), then one of
  order 0x01, both with the checksum 0x5D of the short name \<^verbatim>\<open>A       TXT\<close> that follows.\<close>

definition order_gap :: "(nat \<times> byte) list" where
  "order_gap =
     place 1032 end_of_chain
     @ place 1536 (long_entry 0x43 0x5D ''C'' @ long_entry 0x01 0x5D ''A''
                   @ short_entry ''A       TXT'' 0x20 0 5)"

text \<open>The same with a wrong checksum in the second long-name slot.\<close>

definition broken_checksum :: "(nat \<times> byte) list" where
  "broken_checksum =
     place 1032 end_of_chain
     @ place 1536 (long_entry 0x42 0x5D ''C'' @ long_entry 0x01 0x5E ''A''
                   @ short_entry ''A       TXT'' 0x20 0 5)"

text \<open>The root directory holds the volume label and the file \<^verbatim>\<open>A.TXT\<close>.\<close>

definition labelled_root :: "(nat \<times> byte) list" where
  "labelled_root =
     place 1032 end_of_chain
     @ place 1536 (short_entry ''MYVOLUME   '' 0x08 0 0 @ short_entry ''A       TXT'' 0x20 0 5)"

text \<open>The root directory holds the file \<^verbatim>\<open>NAME.AB\<close>, of 5 bytes in cluster 3.\<close>

definition short_extension_file :: "(nat \<times> byte) list" where
  "short_extension_file =
     place 1032 (end_of_chain @ end_of_chain)
     @ place 1536 (short_entry ''NAME    AB '' 0x20 3 5)
     @ place 2048 [0x68, 0x65, 0x6C, 0x6C, 0x6F]"

text \<open>A file of two clusters: the FAT leads from cluster 3 to cluster 4 and ends there.\<close>

definition chained_clusters :: "(nat \<times> byte) list" where
  "chained_clusters = place 1032 (end_of_chain @ [0x04, 0, 0, 0] @ end_of_chain)"

definition accumulating :: long_name_vars where
  \<comment> \<open>the long-name variables after the first slot of \<^const>\<open>order_gap\<close>\<close>
  "accumulating = \<lparr>longNameStarted = True, totalLongName = [0x43, 0x0000] @ replicate 11 0xFFFF,
     numLongNameEntries = 1, checkSum = 0x5D, previousNameOrder = 0x43\<rparr>"

section \<open>Reading the image\<close>

lemma length_bytes_at [simp]: "length (bytes_at img off n) = n"
  by (simp add: bytes_at_def)

lemma nth_bytes_at [simp]: "k < n \<Longrightarrow> bytes_at img off n ! k = img (off + k)"
  by (simp add: bytes_at_def)

lemma take_bytes_at: "m \<le> n \<Longrightarrow> take m (bytes_at img off n) = bytes_at img off m"
  by (simp add: bytes_at_def take_map)

lemma drop_bytes_at: "drop m (bytes_at img off n) = bytes_at img (off + m) (n - m)"
  by (cases "m \<le> n") (simp_all add: bytes_at_def drop_map)

lemma read_lseek:
  "read_fd n (lseek off s) = (bytes_at (file_bytes s) off n, s\<lparr>file_pos := off + n\<rparr>)"
  by (simp add: read_fd_def lseek_def)

lemma getNextFatValue_eq:
  "getNextFatValue g c s =
     (fat_entry g (file_bytes s) c, s\<lparr>file_pos := fatSectorStart g + unat (4 * c) + 4\<rparr>)"
  by (simp add: getNextFatValue_def fat_entry_def read_lseek SIZE_OF_FAT_ENTRY_def
      BITS_PER_BYTE_def)

lemma masked_successor: "fat_entry g img c AND MASK_FIRST_HEX = successor g img c"
  by (simp add: successor_def MASK_FIRST_HEX_def)

lemma name_parts:
  "take 8 (take 11 raw) = take 8 raw"
  "take 3 (drop 8 (take 11 raw)) = take 3 (drop 8 raw)"
  by (simp_all add: drop_take)

lemma process_entry_eq:
  "process_entry g c d i v s =
     (slot_action d i v (slot_raw g (file_bytes s) c i),
      s\<lparr>file_pos := slot_offset g c i + 32\<rparr>)"
  by (simp add: process_entry_def slot_action_def slot_raw_def read_lseek sizeof_DirInfo_def
      sizeof_LongNameDirInfo_def decode_DirInfo_def Let_def name_parts)

lemma fetch_entry_eq:
  "fetch_entry g c t n i s =
     (fetch_slot_action t n (slot_raw g (file_bytes s) c i),
      s\<lparr>file_pos := slot_offset g c i + 32\<rparr>)"
  by (simp add: fetch_entry_def fetch_slot_action_def slot_raw_def read_lseek sizeof_DirInfo_def
      decode_DirInfo_def Let_def name_parts)

section \<open>The checksum\<close>

lemma bit_128_int: "bit (128::int) n \<longleftrightarrow> n = 7"
proof -
  have "(128::int) = push_bit 7 1" by simp
  then have "bit (128::int) n \<longleftrightarrow> bit (push_bit 7 (1::int)) n" by simp
  also have "\<dots> \<longleftrightarrow> n = 7"
    by (auto simp only: bit_push_bit_iff bit_1_iff possible_bit_int)
  finally show ?thesis .
qed

lemma bit_byte_8: "\<not> bit (s::byte) 8"
  using bit_imp_le_length [of s 8] by auto

lemma high_bit_disjoint: "(if bit s 0 then (128::byte) else 0) AND drop_bit 1 s = 0"
proof (rule bit_word_eqI)
  fix n assume "n < LENGTH(8)"
  show "bit ((if bit s 0 then (128::byte) else 0) AND drop_bit 1 s) n = bit (0::byte) n"
    using bit_byte_8 [of s]
    by (cases "n = 7") (simp_all add: bit_and_iff bit_128_int bit_drop_bit_eq)
qed

lemma rotr_byte:
  "word_rotr 1 (s::byte) = (if s AND 1 \<noteq> 0 then 0x80 else 0) + drop_bit 1 s"
proof -
  have low: "(s AND 1 \<noteq> 0) = bit s 0"
    by (simp add: and_one_eq mod_2_eq_odd bit_0)
  have "bit (word_rotr 1 s) n = bit ((if bit s 0 then 128 else 0) OR drop_bit 1 s) n"
    if "n < 8" for n
  proof (cases "n = 7")
    case True
    then show ?thesis using bit_byte_8 [of s] by (simp add: bit_simps bit_128_int)
  next
    case False
    with that have "Suc n < 8" by simp
    with False that show ?thesis by (simp add: bit_simps bit_128_int)
  qed
  then have "word_rotr 1 s = (if bit s 0 then 128 else 0) OR drop_bit 1 s"
    by (intro bit_word_eqI) simp
  also have "\<dots> = (if bit s 0 then 128 else 0) + drop_bit 1 s"
    by (rule disjunctive_add_eq_or [symmetric]) (rule high_bit_disjoint)
  finally show ?thesis unfolding low by simp
qed

lemma chk_step_rotr: "chk_step b s = word_rotr 1 s + b"
  unfolding chk_step_def rotr_byte ..

lemma ChkSum_loop_fold: "ChkSum_loop n xs s = fold chk_step (take n xs) s"
  by (induction n xs s rule: ChkSum_loop.induct) simp_all

lemma low_bit_unat: "(s AND 1 \<noteq> 0) = (unat s mod 2 = 1)" for s :: byte
  by (metis and_one_eq not_mod_2_eq_0_eq_1 unat_eq_zero unsigned_1 unsigned_and_eq)

lemma unat_chk_step:
  "unat (chk_step b s)
     = ((if unat s mod 2 = 1 then 128 else 0) + unat s div 2 + unat b) mod 256"
  unfolding chk_step_def low_bit_unat
  by (simp add: unat_word_ariths unat_drop_bit_eq drop_bit_eq_div mod_simps)

lemma unat_fold_chk_step:
  "unat (fold chk_step xs s)
     = fold (\<lambda>b Sm. ((if Sm mod 2 = 1 then 128 else 0) + Sm div 2 + b) mod 256)
         (map unat xs) (unat s)"
  by (induction xs arbitrary: s) (simp_all add: unat_chk_step)

lemma ChkSum_nat: "unat (ChkSum name) = rotate_right_sum_nat (map unat name)"
  by (simp add: ChkSum_def rotate_right_sum_nat_def ChkSum_loop_fold unat_fold_chk_step
      take_map)

lemma ChkSum_rotate: "ChkSum name = rotate_right_sum name"
proof -
  have "chk_step = (\<lambda>b s. word_rotr 1 s + b)"
    by (intro ext) (rule chk_step_rotr)
  then show ?thesis
    by (simp add: ChkSum_def rotate_right_sum_def ChkSum_loop_fold)
qed

lemma ChkSum_take: "take 11 a = take 11 b \<Longrightarrow> ChkSum a = ChkSum b"
  by (simp add: ChkSum_def ChkSum_loop_fold)

lemma ChkSum_all_A: "ChkSum (replicate 11 0x41) = 0x1C"
  by code_simp

text \<open>
  C8. \<^verbatim>\<open>ChkSum\<close> is the rotate-right sum of the specification: as a number it is the
  recurrence \<^verbatim>\<open>Sum = ((Sum&1)?0x80:0) + (Sum>>1) + byte\<close> run over the 11 name bytes from 0 and
  kept to one byte, which is a rotation of the byte to the right followed by the addition.
  It reads nothing but these 11 bytes, so two computations on the same name give the same
  byte; and on eleven bytes 0x41 it gives 0x1C.
\<close>

theorem ChkSum_is_rotate_right_sum:
  "unat (ChkSum name) = rotate_right_sum_nat (map unat name)
   \<and> ChkSum name = rotate_right_sum name
   \<and> (\<forall>again. take 11 again = take 11 name \<longrightarrow> ChkSum again = ChkSum name)
   \<and> ChkSum (replicate 11 0x41) = 0x1C"
  using ChkSum_nat ChkSum_rotate ChkSum_take ChkSum_all_A by blast

theorem ChkSum_is_rotate_right_sum_witness:
  "take 11 (replicate 11 0x41 @ [0]) = take 11 (replicate 11 (0x41::byte))
   \<and> ChkSum (replicate 11 0x41 @ [0]) = ChkSum (replicate 11 0x41)
   \<and> unat (ChkSum (replicate 11 0x41)) = rotate_right_sum_nat (map unat (replicate 11 (0x41::byte)))
   \<and> ChkSum (replicate 11 0x41) = rotate_right_sum (replicate 11 0x41)"
proof -
  have same: "take 11 (replicate 11 0x41 @ [0]) = take 11 (replicate 11 (0x41::byte))"
    by simp
  from ChkSum_is_rotate_right_sum [of "replicate 11 0x41"] same show ?thesis
    by blast
qed

section \<open>Running the program on the example volumes\<close>

lemma bytes_at_shift: "bytes_at img off n = map (\<lambda>k. img (off + k)) [0..<n]"
proof -
  have "[off..<off + n] = map (\<lambda>k. off + k) [0..<n]"
    by (induction n) simp_all
  then show ?thesis by (simp add: bytes_at_def)
qed

lemma upt_2: "[0..<2] = [0, 1::nat]" by code_simp
lemma upt_5: "[0..<5] = [0, 1, 2, 3, 4::nat]" by code_simp
lemma upt_6: "[0..<6] = [0, 1, 2, 3, 4, 5::nat]" by code_simp
lemma upt_3: "[0..<3] = [0, 1, 2::nat]" by code_simp

lemma upt_8: "[0..<8] = [0, 1, 2, 3, 4, 5, 6, 7::nat]" by code_simp

lemma upt_11: "[0..<11] = [0, 1, 2, 3, 4, 5, 6, 7, 8, 9, 10::nat]" by code_simp

lemma upt_12: "[0..<12] = [0, 1, 2, 3, 4, 5, 6, 7, 8, 9, 10, 11::nat]" by code_simp

lemma upt_16: "[0..<16] = [0, 1, 2, 3, 4, 5, 6, 7, 8, 9, 10, 11, 12, 13, 14, 15::nat]" by code_simp

lemma bytes_at_3: "bytes_at img off 3 = [img off, img (off + 1), img (off + 2)]"
  by (simp add: bytes_at_shift upt_3)

lemma bytes_at_8: "bytes_at img off 8 = [img off, img (off + 1), img (off + 2), img (off + 3), img (off + 4), img (off + 5), img (off + 6), img (off + 7)]"
  by (simp add: bytes_at_shift upt_8)

lemma bytes_at_11: "bytes_at img off 11 = [img off, img (off + 1), img (off + 2), img (off + 3), img (off + 4), img (off + 5), img (off + 6), img (off + 7), img (off + 8), img (off + 9), img (off + 10)]"
  by (simp add: bytes_at_shift upt_11)

lemma bytes_at_12: "bytes_at img off 12 = [img off, img (off + 1), img (off + 2), img (off + 3), img (off + 4), img (off + 5), img (off + 6), img (off + 7), img (off + 8), img (off + 9), img (off + 10), img (off + 11)]"
  by (simp add: bytes_at_shift upt_12)

lemma sparse_Nil [simp]: "sparse [] i = 0"
  by (simp add: sparse_def)

lemma sparse_Cons [simp]: "sparse ((k, b) # al) i = (if i = k then b else sparse al i)"
  by (simp add: sparse_def)

lemma header_list:
  "header = [(0, 0xEB), (11, 0), (12, 2), (13, 1), (14, 2), (15, 0), (16, 1), (21, 0xF8),
     (32, 0xF5), (33, 0xFF), (34, 0), (35, 0), (36, 1), (37, 0), (38, 0), (39, 0),
     (44, 2), (45, 0), (46, 0), (47, 0), (48, 1), (49, 0),
     (512, 0x52), (513, 0x52), (514, 0x61), (515, 0x41),
     (1024, 0xF8), (1025, 0xFF), (1026, 0xFF), (1027, 0x0F),
     (1028, 0xFF), (1029, 0xFF), (1030, 0xFF), (1031, 0x0F)]"
  by (simp add: header_def place_def)

lemma geometry_value:
  "geometry = \<lparr>fatSectorStart = 1024, dataSectorLocationInSectors = 3,
      entriesPerCluster = 16, bytesPerCluster = 512,
      bootSector =
        \<lparr>BS_jmpBoot = [0xEB, 0, 0], BS_OEMName = [0, 0, 0, 0, 0, 0, 0, 0],
         BPB_BytesPerSec = 512, BPB_SecPerClus = 1, BPB_RsvdSecCnt = 2,
         BPB_NumFATs = 1, BPB_Media = 0xF8, BPB_TotSec32 = 65525,
         BPB_FATSz32 = 1, BPB_RootClus = 2, BPB_FSInfo = 1,
         BPB_reserved = [0, 0, 0, 0, 0, 0, 0, 0, 0, 0, 0, 0],
         BS_VolLab = [0, 0, 0, 0, 0, 0, 0, 0, 0, 0, 0]\<rparr>,
      infoSector = \<lparr>lead_sig = 0x41615252, free_count = 0\<rparr>\<rparr>"
  by (simp add: geometry_def startup_def open_rdonly_def read_fd_def lseek_def Let_def
      sizeof_fat32BS_def sizeof_fat32FSInfo_def sizeof_DirInfo_def decode_fat32BS_def
      decode_fat32FSInfo_def le16_def le32_def take_bytes_at drop_bytes_at
      bytes_at_3 bytes_at_8 bytes_at_11 bytes_at_12 header_list)

lemma sparse_append:
  "sparse (al @ bl) i = (case map_of al i of Some b \<Rightarrow> b | None \<Rightarrow> sparse bl i)"
  by (simp add: sparse_def map_add_def split: option.splits)

lemma header_keys: "map_of header i = None" if "1032 \<le> i"
  using that by (simp add: header_list)

lemma volume_high: "1032 \<le> i \<Longrightarrow> volume extra i = sparse extra i"
  by (simp add: volume_def sparse_append header_keys)

lemma sparse_None:
  "list_all (\<lambda>(k, b). n \<le> k) al \<Longrightarrow> i < n \<Longrightarrow> map_of al i = None" for n :: nat
  by (induction al) auto

lemma volume_low:
  "list_all (\<lambda>(k, b). 1032 \<le> k) extra \<Longrightarrow> i < 1032 \<Longrightarrow> volume extra i = sparse header i"
  using sparse_None [of 1032 extra i]
  by (simp add: volume_def sparse_def map_add_def split: option.splits)

lemma bytes_at_cong:
  "(\<And>i. off \<le> i \<Longrightarrow> i < off + n \<Longrightarrow> img i = img' i) \<Longrightarrow> bytes_at img off n = bytes_at img' off n"
  by (simp add: bytes_at_def)

lemma startup_volume:
  assumes "list_all (\<lambda>(k, b). 1032 \<le> k) extra"
  shows "startup (open_rdonly (volume extra))
         = (geometry, \<lparr>file_bytes = volume extra, file_pos = 1024\<rparr>)"
proof -
  have a: "bytes_at (volume extra) 0 512 = bytes_at (sparse header) 0 512"
    by (rule bytes_at_cong) (simp add: volume_low [OF assms])
  have b: "bytes_at (volume extra) 512 512 = bytes_at (sparse header) 512 512"
    by (rule bytes_at_cong) (simp add: volume_low [OF assms])
  have c: "unat (BPB_BytesPerSec (decode_fat32BS (bytes_at (sparse header) 0 512)))
            * unat (BPB_FSInfo (decode_fat32BS (bytes_at (sparse header) 0 512))) = 512"
    by (simp add: decode_fat32BS_def le16_def header_list)
  show ?thesis
    by (simp add: geometry_def startup_def open_rdonly_def read_fd_def lseek_def Let_def
      sizeof_fat32BS_def sizeof_fat32FSInfo_def a b c)
qed

lemma validate_volume:
  assumes "list_all (\<lambda>(k, b). 1032 \<le> k) extra" and "file_bytes s = volume extra"
  shows "validate geometry s = (None, s\<lparr>file_pos := 1032\<rparr>)"
  by (simp add: validate_def geometry_value Let_def read_lseek SIZE_OF_FAT_ENTRY_def
      BITS_PER_BYTE_def MASK_FIRST_HEX_def le32_def assms volume_low header_list)

lemma main_volume:
  assumes "list_all (\<lambda>(k, b). 1032 \<le> k) extra" and "3 \<le> length argv"
  shows "main fuel EOC argv (volume extra)
         = dispatch fuel EOC argv geometry \<lparr>file_bytes = volume extra, file_pos = 1032\<rparr>"
  using assms by (simp add: main_def startup_volume validate_volume)

lemma geometry_fields [simp]:
  "fatSectorStart geometry = 1024"
  "dataSectorLocationInSectors geometry = 3"
  "entriesPerCluster geometry = 16"
  "bytesPerCluster geometry = 512"
  "BPB_BytesPerSec (bootSector geometry) = 512"
  "BPB_RootClus (bootSector geometry) = 2"
  by (simp_all add: geometry_value)

lemma slot_raw_nth: "k < 32 \<Longrightarrow> slot_raw g img c i ! k = img (slot_offset g c i + k)"
  by (simp add: slot_raw_def)

lemma slot_raw_take: "n \<le> 32 \<Longrightarrow> take n (slot_raw g img c i) = bytes_at img (slot_offset g c i) n"
  by (simp add: slot_raw_def take_bytes_at)

lemma slot_raw_drop8: "take 3 (drop 8 (slot_raw g img c i)) = bytes_at img (slot_offset g c i + 8) 3"
  by (simp add: slot_raw_def take_bytes_at drop_bytes_at)

lemma length_slot_raw [simp]: "length (slot_raw g img c i) = 32"
  by (simp add: slot_raw_def)

lemma map_of_place:
  "map_of (place off bs) i = (if off \<le> i \<and> i < off + length bs then Some (bs ! (i - off)) else None)"
proof (cases "off \<le> i \<and> i < off + length bs")
  case True
  then have "i - off < length bs" and "[off..<off + length bs] ! (i - off) = i"
    by auto
  with map_of_zip_nth [of "[off..<off + length bs]" bs "i - off"] True show ?thesis
    by (simp add: place_def)
next
  case False
  then have "i \<notin> set [off..<off + length bs]" by auto
  with map_of_zip_is_None [of "[off..<off + length bs]" bs i]
  have "map_of (zip [off..<off + length bs] bs) i = None" by simp
  with False show ?thesis
    by (simp only: place_def if_False)
qed

lemma sparse_place:
  "sparse (place off bs) i = (if off \<le> i \<and> i < off + length bs then bs ! (i - off) else 0)"
  by (simp add: sparse_def map_of_place)

lemma sparse_place_append:
  "sparse (place off bs @ al) i
     = (if off \<le> i \<and> i < off + length bs then bs ! (i - off) else sparse al i)"
  by (simp add: sparse_append map_of_place)

lemma list_all_place: "n \<le> off \<Longrightarrow> list_all (\<lambda>(k, b). n \<le> k) (place off bs)"
  by (auto simp: place_def list_all_iff dest!: set_zip_leftD)

lemmas attr_defs = is_directory_def is_file_def is_long_name_def not_hidden_system_volume_def
  ATTR_HIDDEN_def ATTR_SYSTEM_def ATTR_VOLUME_ID_def ATTR_DIRECTORY_def ATTR_LONG_NAME_def
  ATTR_LONG_NAME_MASK_def LAST_LONG_ENTRY_def

lemmas run_defs = dispatch_def process_entry_eq fetch_entry_eq getNextFatValue_eq
  MASK_FIRST_HEX_def END_OF_CLUSTER_CHAIN_def upt_16
  slot_action_def fetch_slot_action_def directory_block_def file_block_def first_long_block_def
  next_long_block_def initial_vars_def free_long_name_def long_name_text_def long_name_units_def
  file_text_def first_cluster_def
  decode_DirInfo_def decode_LongNameDirInfo_def slot_raw_nth slot_raw_take slot_raw_drop8
  slot_offset_def cluster_offset_def sizeof_DirInfo_def fat_entry_def le16_def le32_def
  bytes_at_3 bytes_at_8 bytes_at_11 cstr_def str_def isspace_def removeTrailingSpace.simps
  ChkSum_def ChkSum_loop_fold chk_step_def Let_def upt_2 upt_5 upt_6

lemma replicate_numeral_Cons: "replicate (numeral k) x = x # replicate (pred_numeral k) x"
  by (simp add: numeral_eq_Suc)

lemmas example_defs = marker_then_file_def files_in_subdirectory_def order_gap_def
  broken_checksum_def labelled_root_def short_extension_file_def chained_clusters_def
  end_of_chain_def
  short_entry_def long_entry_def str_def replicate_numeral_Cons Let_def

lemmas lookup = volume_high sparse_place_append sparse_place

lemma long_not_short: "is_long_name a \<Longrightarrow> \<not> is_directory a \<and> \<not> is_file a"
  by (simp add: is_directory_def is_file_def)

lemma decode_long_fields:
  "32 \<le> length raw \<Longrightarrow> LDIR_Ord (decode_LongNameDirInfo raw) = raw ! 0"
  "LDIR_Type (decode_LongNameDirInfo raw) = raw ! 12"
  "LDIR_Chksum (decode_LongNameDirInfo raw) = raw ! 13"
  by (simp_all add: decode_LongNameDirInfo_def)


lemma file_bytes_open [simp]: "file_bytes (open_rdonly img) = img"
  by (simp add: open_rdonly_def)

lemma run_marker_then_file:
  "map_sum id stdout
     (main (Suc (Suc 0)) 0x0FFFFFF8 [str ''fat32'', str ''image'', str ''list'']
        (volume marker_then_file))
   = Inr [Listed (Short_Name_File 0 (str ''A.TXT'')), Message ''Done'']"
  apply (simp add: example_defs)
  apply (simp add: main_volume list_all_place)
  apply (simp add: run_defs attr_defs lookup)
  done


lemma run_order_gap:
  "map_sum id stdout
     (main (Suc 0) 0x0FFFFFF8 [str ''fat32'', str ''image'', str ''list''] (volume order_gap))
   = Inr [Listed (Long_Name_File 0 [0x41, 0x43] (str ''A.TXT'')), Message ''Done'']"
  apply (simp add: example_defs)
  apply (simp add: main_volume list_all_place)
  apply (simp add: run_defs attr_defs lookup)
  done

section \<open>Long names in a listing\<close>



text \<open>
  C4 (amended). While a long name is being collected, a long-name slot that the loop
  processes (its first byte, the order byte, is neither 0x00 nor 0xE5, which are read as
  the end marker and as a deleted entry before anything else) and that finds room in the
  260-unit buffer is appended, its order recorded and the count of slots raised, exactly
  when its checksum byte equals the recorded checksum, its order byte is below the order
  byte accepted last, and its type byte is 0. Otherwise the collection is dropped. The order
  need not be the last order minus one.
\<close>

theorem later_fragment_appended_iff:
  assumes "longNameStarted v"
    and "is_long_name (slot_raw g (file_bytes s) c i ! 11)"
    and "slot_raw g (file_bytes s) c i ! 0 \<noteq> 0x00"
    and "slot_raw g (file_bytes s) c i ! 0 \<noteq> 0xE5"
    and "1 < i \<or> depth = 0"
    and "length (totalLongName v) + 13 \<le> 260"
  shows "fst (process_entry g c depth i v s) =
      (let raw = slot_raw g (file_bytes s) c i
       in if checkSum v = raw ! 13 \<and> raw ! 0 < previousNameOrder v \<and> raw ! 12 = 0
          then Next (v\<lparr>previousNameOrder := raw ! 0,
                        numLongNameEntries := numLongNameEntries v + 1,
                        totalLongName :=
                          totalLongName v @ long_name_units (decode_LongNameDirInfo raw)\<rparr>) []
          else Next (free_long_name v) [])"
  using assms
  by (auto simp: process_entry_eq slot_action_def next_long_block_def Let_def long_not_short
      decode_long_fields slot_raw_def)

lemma order_gap_second_slot:
  "slot_raw geometry (volume order_gap) 2 (Suc 0) ! 0 = 0x01"
  "slot_raw geometry (volume order_gap) 2 (Suc 0) ! 11 = 0x0F"
  "slot_raw geometry (volume order_gap) 2 (Suc 0) ! 12 = 0x00"
  "slot_raw geometry (volume order_gap) 2 (Suc 0) ! 13 = 0x5D"
  "long_name_units (decode_LongNameDirInfo (slot_raw geometry (volume order_gap) 2 (Suc 0)))
     = [0x41, 0x0000] @ replicate 11 0xFFFF"
  by (simp_all add: example_defs, simp_all add: run_defs lookup)

theorem later_fragment_appended_iff_witness:
  "longNameStarted accumulating
   \<and> is_long_name (slot_raw geometry (file_bytes (open_rdonly (volume order_gap))) 2 1 ! 11)
   \<and> slot_raw geometry (file_bytes (open_rdonly (volume order_gap))) 2 1 ! 0 \<noteq> 0x00
   \<and> slot_raw geometry (file_bytes (open_rdonly (volume order_gap))) 2 1 ! 0 \<noteq> 0xE5
   \<and> length (totalLongName accumulating) + 13 \<le> 260
   \<and> fst (process_entry geometry 2 0 1 accumulating (open_rdonly (volume order_gap)))
       = Next (accumulating\<lparr>previousNameOrder := 0x01, numLongNameEntries := 2,
                 totalLongName := totalLongName accumulating @ [0x41, 0x0000] @ replicate 11 0xFFFF\<rparr>) []"
proof -
  let ?s = "open_rdonly (volume order_gap)"
  have started: "longNameStarted accumulating"
    and room: "length (totalLongName accumulating) + 13 \<le> 260"
    and recorded: "checkSum accumulating = 0x5D" "previousNameOrder accumulating = 0x43"
      "numLongNameEntries accumulating = 1"
    by (simp_all add: accumulating_def)
  have long: "is_long_name (slot_raw geometry (file_bytes ?s) 2 1 ! 11)"
    by (simp add: order_gap_second_slot attr_defs)
  have live: "slot_raw geometry (file_bytes ?s) 2 1 ! 0 \<noteq> 0x00"
    "slot_raw geometry (file_bytes ?s) 2 1 ! 0 \<noteq> 0xE5"
    by (simp_all add: order_gap_second_slot)
  have reached: "1 < (1::nat) \<or> (0::nat) = 0"
    by simp
  from later_fragment_appended_iff [OF started long live reached room]
  have "fst (process_entry geometry 2 0 1 accumulating ?s)
       = Next (accumulating\<lparr>previousNameOrder := 0x01, numLongNameEntries := 2,
                 totalLongName := totalLongName accumulating @ [0x41, 0x0000] @ replicate 11 0xFFFF\<rparr>) []"
    by (simp add: Let_def order_gap_second_slot recorded)
  with started long live room show ?thesis
    by simp
qed

text \<open>
  C4 as stated fails on the volume \<^const>\<open>order_gap\<close>: the first long-name slot has order
  0x43, the second has order 0x01, which is lower but is not 0x42, and the second is
  appended all the same; the listing shows the characters of both slots as the long name
  of \<^verbatim>\<open>A.TXT\<close>.
\<close>

theorem order_gap_fragment_appended:
  "fst (process_entry geometry 2 0 0 initial_vars (open_rdonly (volume order_gap)))
     = Next accumulating []
   \<and> previousNameOrder accumulating = 0x43
   \<and> slot_raw geometry (volume order_gap) 2 1 ! 0 = 0x01
   \<and> fst (process_entry geometry 2 0 1 accumulating (open_rdonly (volume order_gap)))
       = Next \<lparr>longNameStarted = True,
               totalLongName = [0x43, 0x0000] @ replicate 11 0xFFFF @ [0x41, 0x0000] @ replicate 11 0xFFFF,
               numLongNameEntries = 2, checkSum = 0x5D, previousNameOrder = 0x01\<rparr> []
   \<and> map_sum id stdout
        (main (Suc 0) 0x0FFFFFF8 [str ''fat32'', str ''image'', str ''list''] (volume order_gap))
       = Inr [Listed (Long_Name_File 0 [0x41, 0x43] (str ''A.TXT'')), Message ''Done'']"
proof -
  have "fst (process_entry geometry 2 0 0 initial_vars (open_rdonly (volume order_gap)))
          = Next accumulating []"
    and "previousNameOrder accumulating = 0x43"
    and "slot_raw geometry (volume order_gap) 2 1 ! 0 = 0x01"
    and "fst (process_entry geometry 2 0 1 accumulating (open_rdonly (volume order_gap)))
       = Next \<lparr>longNameStarted = True,
               totalLongName = [0x43, 0x0000] @ replicate 11 0xFFFF @ [0x41, 0x0000] @ replicate 11 0xFFFF,
               numLongNameEntries = 2, checkSum = 0x5D, previousNameOrder = 0x01\<rparr> []"
    by (simp_all add: example_defs accumulating_def, simp_all add: run_defs attr_defs lookup)
  with run_order_gap show ?thesis
    by simp
qed

text \<open>
  C5. On the volume \<^const>\<open>marker_then_file\<close> the first slot of the root directory is the
  end-of-directory marker and the FAT continues the chain of the root directory with cluster
  3. The listing goes on into cluster 3 and shows the file there: the \<^verbatim>\<open>break\<close> leaves the
  loop over the slots of one cluster only.
\<close>

theorem listing_continues_after_end_marker:
  "slot_raw geometry (volume marker_then_file) 2 0 ! 0 = 0x00
   \<and> successor geometry (volume marker_then_file) 2 = 3
   \<and> map_sum id stdout
        (main (Suc (Suc 0)) 0x0FFFFFF8 [str ''fat32'', str ''image'', str ''list'']
           (volume marker_then_file))
       = Inr [Listed (Short_Name_File 0 (str ''A.TXT'')), Message ''Done'']"
proof -
  have "slot_raw geometry (volume marker_then_file) 2 0 ! 0 = 0x00"
    and "successor geometry (volume marker_then_file) 2 = 3"
    by (simp_all add: example_defs, simp_all add: run_defs lookup successor_def)
  with run_marker_then_file show ?thesis
    by simp
qed




section \<open>The image is only read\<close>

lemma file_bytes_lseek [simp]: "file_bytes (lseek off s) = file_bytes s"
  by (simp add: lseek_def)

lemma file_bytes_read_fd [simp]: "file_bytes (snd (read_fd n s)) = file_bytes s"
  by (simp add: read_fd_def)

lemma file_bytes_getNextFatValue [simp]:
  "file_bytes (snd (getNextFatValue g c s)) = file_bytes s"
  by (simp add: getNextFatValue_eq)















section \<open>The checks of the volume\<close>





end
